theory Spec2Isabelle
  imports Complex_Main "HOL-Library.Char_ord" "HOL-Library.List_Lexorder"
    "HOL-Library.Product_Lexorder"
begin

section \<open>The benchmark harness of project-euler, embedded in HOL\<close>

text \<open>
  The harness is \<^verbatim>\<open>benchmark/benchmark.py\<close>. Python exceptions are values of
  \<open>error\<close>; a function that can raise returns \<open>error + 'a\<close>. Durations are Python
  floats in the source and \<open>real\<close> here: comparisons and sums are the exact ones,
  rounding is not modelled.
\<close>

subsection \<open>Python values\<close>

datatype error =
    CalledProcessError
  | FileNotFoundError
  | StatisticsError
  | ValueError string
  | AttributeError string
  | IndexError
  | KeyError

definition quote :: string where
  "quote = [CHR 0x27]"

definition newline :: char where
  "newline = CHR 0x0A"

text \<open>\<^verbatim>\<open>str(n)\<close> for a Python int: decimal digits, a minus sign for negatives.\<close>

definition digit_char :: "int \<Rightarrow> char" where
  "digit_char d = char_of (48 + d)"

function str_digits :: "int \<Rightarrow> string" where
  "str_digits n =
     (if n < 10 then [digit_char n] else str_digits (n div 10) @ [digit_char (n mod 10)])"
  by pat_completeness auto
termination
  by (relation "measure nat") auto

declare str_digits.simps [simp del]

definition str_int :: "int \<Rightarrow> string" where
  "str_int i = (if i < 0 then CHR ''-'' # str_digits (- i) else str_digits i)"

text \<open>\<^verbatim>\<open>str\<close> of a value that is a string or \<^verbatim>\<open>None\<close>, as an f-string formats it.\<close>

definition str_opt :: "string option \<Rightarrow> string" where
  "str_opt v = (case v of None \<Rightarrow> ''None'' | Some s \<Rightarrow> s)"

subsection \<open>The result store\<close>

text \<open>
  \<open>stats\<close> is the dictionary that \<^verbatim>\<open>benchmark\<close> returns. Its answer starts as
  \<^verbatim>\<open>None\<close> in the source, so it is an option here.
\<close>

record stats =
  s_avg :: real
  s_min :: real
  s_max :: real
  s_stdev :: real
  s_answer :: "string option"

text \<open>
  A row of the table \<^verbatim>\<open>benchmarks\<close>. The column \<^verbatim>\<open>answer\<close> is nullable
  (the queries test \<^verbatim>\<open>answer IS NOT NULL\<close>). The table is the list of its rows in the
  order in which a scan of the engine visits them; \<^verbatim>\<open>INSERT\<close> adds a row at the end.
\<close>

record row =
  problem :: int
  language :: string
  min_time :: real
  avg_time :: real
  max_time :: real
  stdev :: real
  timestamp :: string
  answer :: "string option"

type_synonym store = "row list"

datatype connection = Connection

text \<open>\<^verbatim>\<open>SELECT answer FROM benchmarks WHERE problem = ? AND answer IS NOT NULL LIMIT 1\<close>,
  then \<^verbatim>\<open>fetchone()\<close>.\<close>

definition select_answer :: "store \<Rightarrow> int \<Rightarrow> string option" where
  "select_answer s p =
     (case filter (\<lambda>r. problem r = p \<and> answer r \<noteq> None) s of
        [] \<Rightarrow> None
      | r # _ \<Rightarrow> answer r)"

text \<open>\<^verbatim>\<open>SELECT min_time FROM benchmarks WHERE problem = ? AND language = ?\<close>,
  then \<^verbatim>\<open>fetchone()\<close>.\<close>

definition select_min_time :: "store \<Rightarrow> int \<Rightarrow> string \<Rightarrow> real option" where
  "select_min_time s p l =
     (case filter (\<lambda>r. problem r = p \<and> language r = l) s of
        [] \<Rightarrow> None
      | r # _ \<Rightarrow> Some (min_time r))"

definition new_row :: "int \<Rightarrow> string \<Rightarrow> stats \<Rightarrow> string \<Rightarrow> row" where
  "new_row p l st now =
     \<lparr>problem = p, language = l, min_time = s_min st, avg_time = s_avg st,
      max_time = s_max st, stdev = s_stdev st, timestamp = now, answer = s_answer st\<rparr>"

text \<open>\<^verbatim>\<open>UPDATE benchmarks SET ... WHERE problem = ? AND language = ?\<close>.\<close>

definition update_rows :: "store \<Rightarrow> int \<Rightarrow> string \<Rightarrow> stats \<Rightarrow> string \<Rightarrow> store" where
  "update_rows s p l st now =
     map (\<lambda>r. if problem r = p \<and> language r = l
              then r\<lparr>min_time := s_min st, avg_time := s_avg st, max_time := s_max st,
                     stdev := s_stdev st, timestamp := now, answer := s_answer st\<rparr>
              else r) s"

definition mismatch_message :: "int \<Rightarrow> string \<Rightarrow> string option \<Rightarrow> string" where
  "mismatch_message p expected got =
     ''Answer mismatch for problem '' @ str_int p @ '': expected '' @ quote @ expected @ quote
       @ '', got '' @ quote @ str_opt got @ quote"

definition no_cursor :: string where
  "no_cursor = ''NoneType object has no attribute cursor''"

text \<open>
  The first query of \<^verbatim>\<open>update_database\<close> and the validation after it: the error that
  is raised, or \<open>None\<close> when the call goes on.
\<close>

definition answer_check :: "store \<Rightarrow> int \<Rightarrow> stats \<Rightarrow> error option" where
  "answer_check s p st =
     (case select_answer s p of
        None \<Rightarrow> None
      | Some existing_answer \<Rightarrow>
          if s_answer st \<noteq> Some existing_answer
          then Some (ValueError (mismatch_message p existing_answer (s_answer st)))
          else None)"

text \<open>
  \<^verbatim>\<open>update_database(conn, problem, language, stats)\<close>. The store is passed in and
  returned, also when the call raises, so that what a failed call leaves behind is
  visible. \<open>now\<close> is what \<^verbatim>\<open>datetime.datetime.now().isoformat()\<close> returns.
  With \<^verbatim>\<open>conn\<close> being \<^verbatim>\<open>None\<close>, \<^verbatim>\<open>conn.cursor()\<close> raises.
\<close>

definition update_database ::
  "connection option \<Rightarrow> store \<Rightarrow> int \<Rightarrow> string \<Rightarrow> stats \<Rightarrow> string
     \<Rightarrow> store \<times> (error + bool \<times> string)" where
  "update_database conn s p l st now =
     (case conn of
        None \<Rightarrow> (s, Inl (AttributeError no_cursor))
      | Some _ \<Rightarrow>
          (case answer_check s p st of
             Some e \<Rightarrow> (s, Inl e)
           | None \<Rightarrow>
               (case select_min_time s p l of
                  None \<Rightarrow> (s @ [new_row p l st now], Inr (True, ''new''))
                | Some existing \<Rightarrow>
                    if s_min st < existing
                    then (update_rows s p l st now, Inr (True, ''improved''))
                    else (s, Inr (False, ''slower'')))))"

text \<open>The store after a sequence of calls on a working connection; a call that raises
  leaves the store as it was and the next call goes on from there.\<close>

type_synonym call = "int \<times> string \<times> stats \<times> string"

fun update_all :: "store \<Rightarrow> call list \<Rightarrow> store" where
  "update_all s [] = s"
| "update_all s ((p, l, st, now) # cs) =
     update_all (fst (update_database (Some Connection) s p l st now)) cs"

text \<open>The primary key \<^verbatim>\<open>(problem, language)\<close> of the table.\<close>

definition primary_key :: "store \<Rightarrow> bool" where
  "primary_key s = distinct (map (\<lambda>r. (problem r, language r)) s)"

text \<open>Records of one problem agree on their answers, where they have one.\<close>

definition answers_agree :: "store \<Rightarrow> bool" where
  "answers_agree s =
     (\<forall>r1\<in>set s. \<forall>r2\<in>set s.
        problem r1 = problem r2 \<longrightarrow> answer r1 \<noteq> None \<longrightarrow> answer r2 \<noteq> None
          \<longrightarrow> answer r1 = answer r2)"

text \<open>Every record has an answer, and records of one problem have the same.\<close>

definition same_answer :: "store \<Rightarrow> bool" where
  "same_answer s =
     (\<forall>r1\<in>set s. \<forall>r2\<in>set s.
        answer r1 \<noteq> None \<and> (problem r1 = problem r2 \<longrightarrow> answer r1 = answer r2))"

subsection \<open>Running a command\<close>

text \<open>
  What one launch of a command does: it cannot be started, it exits with a status other
  than 0, or it exits with 0 having written its standard output; the duration is the
  difference of the two \<^verbatim>\<open>time.perf_counter()\<close> readings around \<^verbatim>\<open>run_command\<close>.
  A command is given by what its launches do, in order.
\<close>

datatype outcome = Not_started | Exit_nonzero | Exit_zero string real

type_synonym process = "nat \<Rightarrow> outcome"

text \<open>\<^verbatim>\<open>str.strip()\<close>, on the ASCII characters that Python counts as whitespace.\<close>

definition isspace :: "char \<Rightarrow> bool" where
  "isspace c = (of_char c \<in> {9, 10, 11, 12, 13, 28, 29, 30, 31, 32 :: nat})"

definition strip :: "string \<Rightarrow> string" where
  "strip s = rev (dropWhile isspace (rev (dropWhile isspace s)))"

text \<open>\<^verbatim>\<open>run_command(cmd)\<close> at the \<open>k\<close>-th launch, with the time it took.\<close>

definition run_command :: "process \<Rightarrow> nat \<Rightarrow> error + string \<times> real" where
  "run_command run k =
     (case run k of
        Not_started \<Rightarrow> Inl FileNotFoundError
      | Exit_nonzero \<Rightarrow> Inl CalledProcessError
      | Exit_zero out elapsed \<Rightarrow> Inr (strip out, elapsed))"

subsection \<open>The timing sampler\<close>

text \<open>
  \<^verbatim>\<open>statistics.mean\<close>, \<^verbatim>\<open>min\<close>, \<^verbatim>\<open>max\<close> and \<^verbatim>\<open>statistics.stdev\<close> of the
  standard library, on a list that is not empty (\<^verbatim>\<open>stdev\<close>: of two elements or more).
  \<^verbatim>\<open>benchmark\<close> calls them on no other list: it raises before on the empty one, and
  asks for \<^verbatim>\<open>stdev\<close> only when \<^verbatim>\<open>len(times) > 1\<close>.
\<close>

definition statistics_mean :: "real list \<Rightarrow> real" where
  "statistics_mean xs = sum_list xs / real (length xs)"

fun minimum :: "real list \<Rightarrow> real" where
  "minimum [] = 0"
| "minimum (x # xs) = foldl (\<lambda>m y. if y < m then y else m) x xs"

fun maximum :: "real list \<Rightarrow> real" where
  "maximum [] = 0"
| "maximum (x # xs) = foldl (\<lambda>m y. if y > m then y else m) x xs"

definition statistics_stdev :: "real list \<Rightarrow> real" where
  "statistics_stdev xs =
     sqrt (sum_list (map (\<lambda>x. (x - statistics_mean xs)\<^sup>2) xs) / real (length xs - 1))"

definition inconsistent_message :: "string \<Rightarrow> string \<Rightarrow> string" where
  "inconsistent_message expected got =
     ''Inconsistent output detected: expected '' @ quote @ expected @ quote
       @ '', got '' @ quote @ got @ quote"

text \<open>The warm-up loop, from launch \<open>k\<close> on: the error that ends it, and the number of the
  next launch.\<close>

fun warm_up :: "process \<Rightarrow> nat \<Rightarrow> nat \<Rightarrow> error option \<times> nat" where
  "warm_up run k 0 = (None, k)"
| "warm_up run k (Suc n) =
     (case run_command run k of
        Inl e \<Rightarrow> (Some e, Suc k)
      | Inr _ \<Rightarrow> warm_up run (Suc k) n)"

text \<open>The measured loop, with the variables \<^verbatim>\<open>times\<close> (\<open>tms\<close>) and \<^verbatim>\<open>answer\<close>
  (\<open>ans\<close>).\<close>

fun measured :: "process \<Rightarrow> nat \<Rightarrow> nat \<Rightarrow> real list \<Rightarrow> string option
    \<Rightarrow> (error + real list \<times> string option) \<times> nat" where
  "measured run k 0 tms ans = (Inr (tms, ans), k)"
| "measured run k (Suc n) tms ans =
     (case run_command run k of
        Inl e \<Rightarrow> (Inl e, Suc k)
      | Inr (output, elapsed) \<Rightarrow>
          (case ans of
             None \<Rightarrow> measured run (Suc k) n (tms @ [elapsed]) (Some output)
           | Some a \<Rightarrow>
               if a \<noteq> output
               then (Inl (ValueError (inconsistent_message a output)), Suc k)
               else measured run (Suc k) n (tms @ [elapsed]) ans))"

text \<open>
  \<^verbatim>\<open>benchmark(cmd, runs, warmup)\<close>, the command starting at its launch \<open>k\<close>; the second
  component is the number of launches made so far. \<^verbatim>\<open>statistics.mean\<close> of no
  durations raises.
\<close>

definition benchmark :: "process \<Rightarrow> nat \<Rightarrow> nat \<Rightarrow> nat \<Rightarrow> (error + stats) \<times> nat" where
  "benchmark run k runs warmup =
     (case warm_up run k warmup of
        (Some e, k') \<Rightarrow> (Inl e, k')
      | (None, k') \<Rightarrow>
          (case measured run k' runs [] None of
             (Inl e, k'') \<Rightarrow> (Inl e, k'')
           | (Inr (tms, ans), k'') \<Rightarrow>
               if tms = [] then (Inl StatisticsError, k'')
               else (Inr \<lparr>s_avg = statistics_mean tms,
                          s_min = minimum tms,
                          s_max = maximum tms,
                          s_stdev = (if length tms > 1 then statistics_stdev tms else 0),
                          s_answer = ans\<rparr>, k'')))"

subsection \<open>Problem discovery\<close>

record language_config =
  dir :: string
  command_prefix :: "string list"
  file_pattern :: string

text \<open>The dictionary \<^verbatim>\<open>LANGUAGE_CONFIGS\<close>, in the order of its keys.\<close>

definition LANGUAGE_CONFIGS :: "(string \<times> language_config) list" where
  "LANGUAGE_CONFIGS =
     [(''python'',
       \<lparr>dir = ''python'', command_prefix = [''uv'', ''run'', ''python''],
        file_pattern = ''main.py''\<rparr>)]"

text \<open>The file system under the project root: a directory lists its entries by name.\<close>

datatype node = File | Dir "(string \<times> node) list"

type_synonym directory = "(string \<times> node) list"

fun entries :: "node \<Rightarrow> directory" where
  "entries File = []"
| "entries (Dir es) = es"

fun is_dir :: "node \<Rightarrow> bool" where
  "is_dir File = False"
| "is_dir (Dir es) = True"

text \<open>\<^verbatim>\<open>s.split(c)\<close>.\<close>

fun str_split :: "char \<Rightarrow> string \<Rightarrow> string list" where
  "str_split c [] = [[]]"
| "str_split c (x # xs) =
     (if x = c then [] # str_split c xs
      else (case str_split c xs of
              [] \<Rightarrow> [[x]]
            | w # ws \<Rightarrow> (x # w) # ws))"

text \<open>
  \<^verbatim>\<open>int(s)\<close> on ASCII text, \<open>None\<close> standing for \<^verbatim>\<open>ValueError\<close>: surrounding
  whitespace, one optional sign, then decimal digits, where single underscores may stand
  between digits.
\<close>

definition isdigit :: "char \<Rightarrow> bool" where
  "isdigit c = (48 \<le> (of_char c :: nat) \<and> (of_char c :: nat) \<le> 57)"

definition digit_value :: "char \<Rightarrow> nat" where
  "digit_value c = of_char c - 48"

fun int_digits :: "nat \<Rightarrow> string \<Rightarrow> nat option" where
  "int_digits acc [] = Some acc"
| "int_digits acc (c # cs) =
     (if c = CHR ''_''
      then (case cs of
              [] \<Rightarrow> None
            | d # ds \<Rightarrow> if isdigit d then int_digits (10 * acc + digit_value d) ds else None)
      else if isdigit c then int_digits (10 * acc + digit_value c) cs
      else None)"

definition int_literal :: "string \<Rightarrow> nat option" where
  "int_literal s =
     (case s of
        [] \<Rightarrow> None
      | c # cs \<Rightarrow> if isdigit c then int_digits (digit_value c) cs else None)"

definition py_int :: "string \<Rightarrow> int option" where
  "py_int s =
     (case strip s of
        [] \<Rightarrow> None
      | c # cs \<Rightarrow>
          if c = CHR ''-'' then map_option (\<lambda>n. - int n) (int_literal cs)
          else if c = CHR ''+'' then map_option int (int_literal cs)
          else map_option int (int_literal (c # cs)))"

record problem_entry =
  number :: int
  path :: string

text \<open>\<^verbatim>\<open>lang_dir.glob("problem-*")\<close>: the entries whose name starts with \<^verbatim>\<open>problem-\<close>.\<close>

definition glob_problem :: "directory \<Rightarrow> directory" where
  "glob_problem es = filter (\<lambda>(name, n). take 8 name = ''problem-'') es"

text \<open>
  The loop of \<^verbatim>\<open>discover_problems\<close> over the sorted paths, with the list
  \<^verbatim>\<open>problems\<close> built so far. \<^verbatim>\<open>except ValueError: continue\<close> is the branch where
  \<^verbatim>\<open>int\<close> fails; an \<^verbatim>\<open>IndexError\<close> of \<^verbatim>\<open>split("-")[1]\<close> would not be caught.
\<close>

fun collect :: "language_config \<Rightarrow> directory \<Rightarrow> problem_entry list
    \<Rightarrow> error + problem_entry list" where
  "collect config [] problems = Inr problems"
| "collect config ((name, problem_dir) # rest) problems =
     (if is_dir problem_dir
      then (case str_split CHR ''-'' name of
              _ # problem_num # _ \<Rightarrow>
                (case py_int problem_num of
                   None \<Rightarrow> collect config rest problems
                 | Some num \<Rightarrow>
                     if map_of (entries problem_dir) (file_pattern config) \<noteq> None
                     then collect config rest (problems @ [\<lparr>number = num, path = name\<rparr>])
                     else collect config rest problems)
            | _ \<Rightarrow> Inl IndexError)
      else collect config rest problems)"

text \<open>\<^verbatim>\<open>discover_problems(language, project_root)\<close>; \<^verbatim>\<open>sorted\<close> orders the paths of
  one directory by their names.\<close>

definition discover_problems :: "string \<Rightarrow> directory \<Rightarrow> error + problem_entry list" where
  "discover_problems lang project_root =
     (case map_of LANGUAGE_CONFIGS lang of
        None \<Rightarrow> Inr []
      | Some config \<Rightarrow>
          (case map_of project_root (dir config) of
             None \<Rightarrow> Inr []
           | Some lang_dir \<Rightarrow>
               collect config (sort_key fst (glob_problem (entries lang_dir))) []))"

text \<open>What a directory entry contributes: the number read from the text between the
  first and the second \<^verbatim>\<open>-\<close> of its name, when it is a directory with the entry-point
  file and \<^verbatim>\<open>int\<close> accepts that text.\<close>

definition problem_number :: "string \<Rightarrow> int option" where
  "problem_number name =
     (case str_split CHR ''-'' name of
        _ # field # _ \<Rightarrow> py_int field
      | _ \<Rightarrow> None)"

definition entry_of :: "language_config \<Rightarrow> string \<times> node \<Rightarrow> problem_entry option" where
  "entry_of config e =
     (if is_dir (snd e) \<and> map_of (entries (snd e)) (file_pattern config) \<noteq> None
      then map_option (\<lambda>num. \<lparr>number = num, path = fst e\<rparr>) (problem_number (fst e))
      else None)"

subsection \<open>The orchestrator\<close>

definition RUNS :: nat where
  "RUNS = 20"

definition WARMUP :: nat where
  "WARMUP = 5"

text \<open>
  \<^verbatim>\<open>init_database()\<close> on the table of the database file (\<open>None\<close>: no table yet):
  \<^verbatim>\<open>CREATE TABLE IF NOT EXISTS\<close> keeps an existing table. The function has no
  \<^verbatim>\<open>return\<close> statement, so the value of the call is \<^verbatim>\<open>None\<close>.
\<close>

definition init_database :: "store option \<Rightarrow> store option \<times> connection option" where
  "init_database db = (Some (case db of None \<Rightarrow> [] | Some s \<Rightarrow> s), None)"

text \<open>\<^verbatim>\<open>get_all_results(conn)\<close>: the rows ordered by \<^verbatim>\<open>problem, language\<close>.\<close>

definition get_all_results :: "connection option \<Rightarrow> store \<Rightarrow> error + row list" where
  "get_all_results conn s =
     (case conn of
        None \<Rightarrow> Inl (AttributeError no_cursor)
      | Some _ \<Rightarrow> Inr (sort_key (\<lambda>r. (problem r, language r)) s))"

text \<open>What the program is given: the parsed command line and its surroundings.\<close>

record args =
  arg_language :: "string option"
  arg_problem :: "int option"

record world =
  files :: directory
  table :: "store option"
  launch :: "string list \<Rightarrow> process"
  clock :: "nat \<Rightarrow> string"

text \<open>The lines that \<^verbatim>\<open>main\<close> prints per problem and per language, by kind; the
  rendering of the numbers is left out.\<close>

datatype event =
    No_problems string "int option"
  | Running int string
  | New_record real
  | Improved_record real
  | Not_faster real
  | Failed error
  | Summary nat nat nat

fun store_event :: "event \<Rightarrow> bool" where
  "store_event (New_record m) = True"
| "store_event (Improved_record m) = True"
| "store_event (Not_faster m) = True"
| "store_event e = False"

text \<open>The variables of \<^verbatim>\<open>main\<close> that the loops change, with the table and the output.\<close>

record state =
  rows :: store
  total_benchmarks :: nat
  improved_count :: nat
  new_count :: nat
  printed :: "event list"

text \<open>The command of a problem; its path is taken from the language directory.\<close>

definition command :: "string \<Rightarrow> language_config \<Rightarrow> problem_entry \<Rightarrow> string list" where
  "command lang config p =
     (if lang = ''python''
      then command_prefix config @ [path p @ ''/'' @ file_pattern config]
      else command_prefix config @ [path p])"

text \<open>The body of \<^verbatim>\<open>try\<close> for one problem: the state after it, or the exception.\<close>

definition try_problem ::
  "world \<Rightarrow> connection option \<Rightarrow> string \<Rightarrow> string list \<Rightarrow> problem_entry \<Rightarrow> state
     \<Rightarrow> state \<times> error option" where
  "try_problem w conn lang cmd p st =
     (case fst (benchmark (launch w cmd) 0 RUNS WARMUP) of
        Inl e \<Rightarrow> (st, Some e)
      | Inr stats \<Rightarrow>
          (case update_database conn (rows st) (number p) lang stats
                  (clock w (total_benchmarks st)) of
             (s', Inl e) \<Rightarrow> (st\<lparr>rows := s'\<rparr>, Some e)
           | (s', Inr (_, status)) \<Rightarrow>
               if status = ''new''
               then (st\<lparr>rows := s', new_count := new_count st + 1,
                        printed := printed st @ [New_record (s_min stats)]\<rparr>, None)
               else if status = ''improved''
               then (st\<lparr>rows := s', improved_count := improved_count st + 1,
                        printed := printed st @ [Improved_record (s_min stats)]\<rparr>, None)
               else (st\<lparr>rows := s',
                        printed := printed st @ [Not_faster (s_min stats)]\<rparr>, None)))"

text \<open>The loop \<^verbatim>\<open>for problem in problems\<close>; \<^verbatim>\<open>except Exception\<close> catches every
  exception of the body, prints it and goes on.\<close>

fun run_problems ::
  "world \<Rightarrow> connection option \<Rightarrow> string \<Rightarrow> language_config \<Rightarrow> problem_entry list \<Rightarrow> state
     \<Rightarrow> state" where
  "run_problems w conn lang config [] st = st"
| "run_problems w conn lang config (p # ps) st =
     (let st1 = st\<lparr>total_benchmarks := total_benchmarks st + 1,
                   printed := printed st @ [Running (number p) lang]\<rparr>
      in case try_problem w conn lang (command lang config p) p st1 of
           (st2, None) \<Rightarrow> run_problems w conn lang config ps st2
         | (st2, Some e) \<Rightarrow>
             run_problems w conn lang config ps (st2\<lparr>printed := printed st2 @ [Failed e]\<rparr>))"

text \<open>The loop \<^verbatim>\<open>for language in languages\<close>: the state it reaches, and the
  exception that ends it, if any; an exception outside of \<^verbatim>\<open>try\<close> ends the program.\<close>

fun run_languages ::
  "world \<Rightarrow> args \<Rightarrow> connection option \<Rightarrow> string list \<Rightarrow> state
     \<Rightarrow> state \<times> error option" where
  "run_languages w a conn [] st = (st, None)"
| "run_languages w a conn (lang # langs) st =
     (case discover_problems lang (files w) of
        Inl e \<Rightarrow> (st, Some e)
      | Inr discovered \<Rightarrow>
          (let problems = (case arg_problem a of
                             None \<Rightarrow> discovered
                           | Some n \<Rightarrow> filter (\<lambda>p. number p = n) discovered)
           in if problems = []
              then run_languages w a conn langs
                     (st\<lparr>printed := printed st @
                        [No_problems lang
                           (case arg_problem a of
                              None \<Rightarrow> None
                            | Some n \<Rightarrow> if n \<noteq> 0 then Some n else None)]\<rparr>)
              else (case map_of LANGUAGE_CONFIGS lang of
                      None \<Rightarrow> (st, Some KeyError)
                    | Some config \<Rightarrow>
                        run_languages w a conn langs
                          (run_problems w conn lang config problems st))))"

text \<open>
  What a run of the program leaves: the exit status (0 at the end of \<^verbatim>\<open>main\<close>, 1 after
  an exception that nothing catches, 2 when \<^verbatim>\<open>argparse\<close> rejects the language), what
  it printed, the table, the rows that \<^verbatim>\<open>export_csv\<close> wrote to \<^verbatim>\<open>results.csv\<close> and
  \<^verbatim>\<open>export_markdown\<close> to \<^verbatim>\<open>BENCHMARKS.md\<close> (\<open>None\<close>: the file was not written; the
  rendering of a row is left out), and the variable \<^verbatim>\<open>conn\<close>.
\<close>

record result =
  exit_code :: int
  out_events :: "event list"
  db_after :: "store option"
  csv_written :: "row list option"
  md_written :: "row list option"
  conn_value :: "connection option"

definition main :: "args \<Rightarrow> world \<Rightarrow> result" where
  "main a w =
     (if (case arg_language a of
            None \<Rightarrow> False
          | Some l \<Rightarrow> l \<notin> set (map fst LANGUAGE_CONFIGS))
      then \<lparr>exit_code = 2, out_events = [], db_after = table w, csv_written = None,
            md_written = None, conn_value = None\<rparr>
      else
        (case init_database (table w) of
           (db, conn) \<Rightarrow>
             (let languages =
                    (case arg_language a of
                       None \<Rightarrow> map fst LANGUAGE_CONFIGS
                     | Some l \<Rightarrow> if l \<noteq> [] then [l] else map fst LANGUAGE_CONFIGS);
                  st0 = \<lparr>rows = (case db of None \<Rightarrow> [] | Some s \<Rightarrow> s),
                          total_benchmarks = 0, improved_count = 0, new_count = 0,
                          printed = []\<rparr>
              in case run_languages w a conn languages st0 of
                   (st, Some e) \<Rightarrow>
                     \<lparr>exit_code = 1, out_events = printed st, db_after = Some (rows st),
                      csv_written = None, md_written = None, conn_value = conn\<rparr>
                 | (st, None) \<Rightarrow>
                     (case get_all_results conn (rows st) of
                        Inl e \<Rightarrow>
                          \<lparr>exit_code = 1, out_events = printed st, db_after = Some (rows st),
                           csv_written = None, md_written = None, conn_value = conn\<rparr>
                      | Inr results \<Rightarrow>
                          \<lparr>exit_code = 0,
                           out_events = printed st @
                             [Summary (total_benchmarks st) (new_count st) (improved_count st)],
                           db_after = Some (rows st),
                           csv_written = Some results, md_written = Some results,
                           conn_value = conn\<rparr>))))"

text \<open>The exception that ends the body of \<^verbatim>\<open>try\<close> for a problem when \<^verbatim>\<open>conn\<close> is
  \<^verbatim>\<open>None\<close>: the one of \<^verbatim>\<open>benchmark\<close>, or else the one of \<^verbatim>\<open>conn.cursor()\<close>.\<close>

definition failure :: "world \<Rightarrow> string \<Rightarrow> language_config \<Rightarrow> problem_entry \<Rightarrow> error" where
  "failure w lang config p =
     (case fst (benchmark (launch w (command lang config p)) 0 RUNS WARMUP) of
        Inl e \<Rightarrow> e
      | Inr stats \<Rightarrow> AttributeError no_cursor)"

section \<open>The bundled solutions\<close>

subsection \<open>\<^verbatim>\<open>python/problem-3/main.py\<close>\<close>

text \<open>
  The inner loop \<^verbatim>\<open>for n in range(2, int(factor/2))\<close> with its \<^verbatim>\<open>break\<close>, from
  \<open>n\<close> on and below \<open>hi\<close>: the first \<open>n\<close> that divides \<open>factor\<close>, if there is one.
\<close>

function first_divisor :: "int \<Rightarrow> int \<Rightarrow> int \<Rightarrow> int option" where
  "first_divisor factor n hi =
     (if n < hi
      then (if factor mod n = 0 then Some n else first_divisor factor (n + 1) hi)
      else None)"
  by pat_completeness auto
termination
  by (relation "measure (\<lambda>(factor, n, hi). nat (hi - n))") auto

declare first_divisor.simps [simp del]

text \<open>
  The loop \<^verbatim>\<open>for factor in factors\<close>, with \<^verbatim>\<open>updated_factors\<close> and
  \<^verbatim>\<open>factor_found\<close>. Sets are lists without repetition; the order in which Python
  iterates over a set does not change the set that the loop builds.
  \<^verbatim>\<open>int(factor/2)\<close> and \<^verbatim>\<open>int(factor/n)\<close> divide floats; for the integers below
  \<open>2^53\<close> that occur here the results are \<open>factor div 2\<close> and the exact quotient.
\<close>

fun scan_factors :: "int list \<Rightarrow> int list \<Rightarrow> bool \<Rightarrow> int list \<times> bool" where
  "scan_factors [] updated_factors factor_found = (updated_factors, factor_found)"
| "scan_factors (factor # rest) updated_factors factor_found =
     (case first_divisor factor 2 (factor div 2) of
        None \<Rightarrow> scan_factors rest updated_factors factor_found
      | Some n \<Rightarrow>
          scan_factors rest (List.insert (factor div n) (List.insert n updated_factors)) True)"

text \<open>The loop \<^verbatim>\<open>while factor_found\<close>; \<open>None\<close> when it does not end.\<close>

partial_function (option) factor_loop :: "int list \<Rightarrow> int list option" where
  "factor_loop factors =
     (case scan_factors factors [] False of
        (updated_factors, factor_found) \<Rightarrow>
          if factor_found
          then factor_loop (if updated_factors \<noteq> [] then updated_factors else factors)
          else Some (if updated_factors \<noteq> [] then updated_factors else factors))"

text \<open>What \<^verbatim>\<open>main()\<close> writes to standard output, or the exception that ends it;
  \<open>None\<close> when it does not return.\<close>

definition problem_3_main :: "(error + string) option" where
  "problem_3_main =
     (case factor_loop [600851475143] of
        None \<Rightarrow> None
      | Some factors \<Rightarrow>
          (case rev (sort factors) of
             [] \<Rightarrow> Some (Inl IndexError)
           | x # _ \<Rightarrow> Some (Inr (str_int x @ [newline]))))"

subsection \<open>\<^verbatim>\<open>python/problem-4/main.py\<close>\<close>

definition check_palindrome :: "int \<Rightarrow> bool" where
  "check_palindrome num = (str_int num = rev (str_int num))"

text \<open>The loop \<^verbatim>\<open>for j in range(num2, 0, -1)\<close> with its \<^verbatim>\<open>break\<close>, from \<open>j\<close> down.\<close>

function inner_loop :: "int \<Rightarrow> int \<Rightarrow> int \<Rightarrow> int" where
  "inner_loop i j largest =
     (if 0 < j
      then (if i * j \<le> largest then largest
            else inner_loop i (j - 1) (if check_palindrome (i * j) then i * j else largest))
      else largest)"
  by pat_completeness auto
termination
  by (relation "measure (\<lambda>(i, j, largest). nat j)") auto

declare inner_loop.simps [simp del]

text \<open>The loop \<^verbatim>\<open>for i in range(num1, 0, -1)\<close>, from \<open>i\<close> down.\<close>

function outer_loop :: "int \<Rightarrow> int \<Rightarrow> int \<Rightarrow> int" where
  "outer_loop i num2 largest =
     (if 0 < i then outer_loop (i - 1) num2 (inner_loop i num2 largest) else largest)"
  by pat_completeness auto
termination
  by (relation "measure (\<lambda>(i, num2, largest). nat i)") auto

declare outer_loop.simps [simp del]

text \<open>What \<^verbatim>\<open>main()\<close> writes to standard output.\<close>

definition problem_4_main :: "error + string" where
  "problem_4_main = Inr (str_int (outer_loop 999 999 0) @ [newline])"

section \<open>Example data\<close>

definition ex_row :: row where
  "ex_row = \<lparr>problem = 1, language = ''python'', min_time = 5/10, avg_time = 6/10,
     max_time = 7/10, stdev = 1/10, timestamp = ''2025-01-01T00:00:00'', answer = Some ''42''\<rparr>"

definition ex_stats :: "real \<Rightarrow> string \<Rightarrow> stats" where
  "ex_stats m a = \<lparr>s_avg = m + 1/10, s_min = m, s_max = m + 2/10, s_stdev = 1/10,
     s_answer = Some a\<rparr>"

definition ex_now :: string where
  "ex_now = ''2025-01-02T00:00:00''"

definition ex_calls :: "call list" where
  "ex_calls =
     [(1, ''python'', ex_stats (5/10) ''42'', ''2025-01-01T00:00:00''),
      (1, ''go'', ex_stats (3/10) ''42'', ''2025-01-01T00:00:01''),
      (1, ''rust'', ex_stats (1/10) ''43'', ''2025-01-01T00:00:02''),
      (2, ''python'', ex_stats (9/10) ''7'', ''2025-01-01T00:00:03'')]"

definition ex_steady :: process where
  "ex_steady i =
     (if i = 0 then Exit_zero ''0'' 9
      else if i = 1 then Exit_zero (''42'' @ [newline]) 1
      else Exit_zero '' 42'' 3)"

definition ex_flaky :: process where
  "ex_flaky i = (if i = 3 then Exit_zero ''43'' 2 else Exit_zero ''42'' 1)"

definition ex_root :: directory where
  "ex_root =
     [(''benchmark'', Dir [(''benchmark.py'', File)]),
      (''python'',
       Dir [(''problem-abc'', Dir [(''main.py'', File)]),
            (''problem-4'', Dir [(''main.py'', File)]),
            (''notes.txt'', File),
            (''problem-5'', Dir [(''README'', File)]),
            (''problem-3'', Dir [(''main.py'', File)])])]"

definition ex_root_old :: directory where
  "ex_root_old =
     [(''python'',
       Dir [(''problem-3'', Dir [(''main.py'', File)]),
            (''problem-3-old'', Dir [(''main.py'', File)]),
            (''problem-10'', Dir [(''main.py'', File)])])]"

definition ex_args :: args where
  "ex_args = \<lparr>arg_language = None, arg_problem = None\<rparr>"

definition ex_world :: world where
  "ex_world =
     \<lparr>files = ex_root,
      table = None,
      launch = (\<lambda>cmd i. if cmd = [''uv'', ''run'', ''python'', ''problem-3/main.py'']
                           then Exit_zero (''6857'' @ [newline]) (1/10)
                           else Exit_nonzero),
      clock = (\<lambda>n. ''2025-01-01T00:00:00'')\<rparr>"

section \<open>Properties of the result store\<close>

lemma select_answer_None:
  "select_answer s p = None \<longleftrightarrow> (\<forall>r\<in>set s. problem r = p \<longrightarrow> answer r = None)"
  by (induction s) (auto simp: select_answer_def)

lemma select_answer_Some:
  "select_answer s p = Some a \<Longrightarrow> \<exists>r\<in>set s. problem r = p \<and> answer r = Some a"
  by (induction s) (auto simp: select_answer_def split: if_splits)

lemma select_min_time_None:
  "select_min_time s p l = None \<longleftrightarrow> (\<forall>r\<in>set s. problem r = p \<longrightarrow> language r \<noteq> l)"
  by (induction s) (auto simp: select_min_time_def)

lemma select_min_time_Some:
  "primary_key s \<Longrightarrow> r \<in> set s \<Longrightarrow> problem r = p \<Longrightarrow> language r = l
     \<Longrightarrow> select_min_time s p l = Some (min_time r)"
  by (induction s) (auto simp: select_min_time_def primary_key_def)

lemma answer_check_None:
  "answer_check s p st = None \<longleftrightarrow>
     (select_answer s p = None \<or> select_answer s p = s_answer st)"
  by (auto simp: answer_check_def split: option.splits)

lemma answer_check_pass:
  "\<forall>r\<in>set s. problem r = p \<longrightarrow> answer r = None \<or> answer r = s_answer st
     \<Longrightarrow> answer_check s p st = None"
  unfolding answer_check_None
  by (cases "select_answer s p") (auto dest!: select_answer_Some)

lemma answer_check_agree:
  assumes "answers_agree s" "r \<in> set s" "problem r = p" "answer r = Some a"
  shows "answer_check s p st =
           (if s_answer st \<noteq> Some a
            then Some (ValueError (mismatch_message p a (s_answer st))) else None)"
proof (cases "select_answer s p")
  case None
  with assms show ?thesis by (auto simp: select_answer_None)
next
  case (Some b)
  then obtain r' where "r' \<in> set s" "problem r' = p" "answer r' = Some b"
    by (auto dest: select_answer_Some)
  with assms have "b = a" unfolding answers_agree_def by fastforce
  with Some show ?thesis by (simp add: answer_check_def)
qed

lemma update_database_fst_cases:
  "fst (update_database conn s p l st now) = s
   \<or> (answer_check s p st = None \<and> select_min_time s p l = None
        \<and> fst (update_database conn s p l st now) = s @ [new_row p l st now])
   \<or> (answer_check s p st = None \<and> select_min_time s p l \<noteq> None
        \<and> fst (update_database conn s p l st now) = update_rows s p l st now)"
  by (auto simp: update_database_def split: option.splits)

lemma new_row_sel [simp]:
  "problem (new_row p l st now) = p" "language (new_row p l st now) = l"
  "answer (new_row p l st now) = s_answer st" "min_time (new_row p l st now) = s_min st"
  by (simp_all add: new_row_def)

lemma answers_agreeD:
  "answers_agree s \<Longrightarrow> r1 \<in> set s \<Longrightarrow> r2 \<in> set s \<Longrightarrow> problem r1 = problem r2
     \<Longrightarrow> answer r1 \<noteq> None \<Longrightarrow> answer r2 \<noteq> None \<Longrightarrow> answer r1 = answer r2"
  unfolding answers_agree_def by blast

lemma answer_check_NoneD:
  assumes "answers_agree s" "answer_check s p st = None" "r \<in> set s" "problem r = p"
    "answer r \<noteq> None"
  shows "answer r = s_answer st"
proof -
  from assms(5) obtain a where a: "answer r = Some a" by auto
  from answer_check_agree [OF assms(1) assms(3) assms(4) a, of st] assms(2)
  show ?thesis using a by (simp split: if_splits)
qed

lemma answers_agree_insert:
  assumes "answers_agree s" "answer_check s p st = None"
  shows "answers_agree (s @ [new_row p l st now])"
  unfolding answers_agree_def
proof (intro ballI impI)
  fix r1 r2
  assume r1: "r1 \<in> set (s @ [new_row p l st now])"
    and r2: "r2 \<in> set (s @ [new_row p l st now])"
    and p: "problem r1 = problem r2" and n1: "answer r1 \<noteq> None" and n2: "answer r2 \<noteq> None"
  from r1 have c1: "r1 \<in> set s \<or> r1 = new_row p l st now" by auto
  from r2 have c2: "r2 \<in> set s \<or> r2 = new_row p l st now" by auto
  from c1 c2 show "answer r1 = answer r2"
  proof (elim disjE)
    assume "r1 \<in> set s" "r2 \<in> set s"
    then show ?thesis using answers_agreeD [OF assms(1)] p n1 n2 by blast
  next
    assume a: "r1 \<in> set s" "r2 = new_row p l st now"
    then have "problem r1 = p" using p by simp
    from answer_check_NoneD [OF assms a(1) this n1] a(2) show ?thesis by simp
  next
    assume a: "r1 = new_row p l st now" "r2 \<in> set s"
    then have "problem r2 = p" using p by simp
    from answer_check_NoneD [OF assms a(2) this n2] a(1) show ?thesis by simp
  next
    assume "r1 = new_row p l st now" "r2 = new_row p l st now"
    then show ?thesis by simp
  qed
qed

lemma update_rows_origin:
  "r' \<in> set (update_rows s p l st now) \<Longrightarrow>
     \<exists>r\<in>set s. problem r' = problem r \<and> language r' = language r
        \<and> (answer r' = answer r \<or> (problem r = p \<and> answer r' = s_answer st))"
  by (auto simp: update_rows_def split: if_splits)

lemma answers_agree_update:
  assumes "answers_agree s" "answer_check s p st = None"
  shows "answers_agree (update_rows s p l st now)"
  unfolding answers_agree_def
proof (intro ballI impI)
  fix r1 r2
  assume r1: "r1 \<in> set (update_rows s p l st now)"
    and r2: "r2 \<in> set (update_rows s p l st now)"
    and p: "problem r1 = problem r2" and n1: "answer r1 \<noteq> None" and n2: "answer r2 \<noteq> None"
  from update_rows_origin [OF r1] obtain o1 where o1: "o1 \<in> set s" "problem r1 = problem o1"
    "answer r1 = answer o1 \<or> (problem o1 = p \<and> answer r1 = s_answer st)" by blast
  from update_rows_origin [OF r2] obtain o2 where o2: "o2 \<in> set s" "problem r2 = problem o2"
    "answer r2 = answer o2 \<or> (problem o2 = p \<and> answer r2 = s_answer st)" by blast
  have po: "problem o1 = problem o2" using p o1(2) o2(2) by simp
  from o1(3) o2(3) show "answer r1 = answer r2"
  proof (elim disjE conjE)
    assume a: "answer r1 = answer o1" "answer r2 = answer o2"
    with answers_agreeD [OF assms(1) o1(1) o2(1) po] n1 n2 show ?thesis by simp
  next
    assume a: "answer r1 = answer o1" "problem o2 = p" "answer r2 = s_answer st"
    have "problem o1 = p" using po a(2) by simp
    from answer_check_NoneD [OF assms o1(1) this] n1 a show ?thesis by simp
  next
    assume a: "problem o1 = p" "answer r1 = s_answer st" "answer r2 = answer o2"
    have "problem o2 = p" using po a(1) by simp
    from answer_check_NoneD [OF assms o2(1) this] n2 a show ?thesis by simp
  next
    assume "answer r1 = s_answer st" "answer r2 = s_answer st"
    then show ?thesis by simp
  qed
qed

lemma answers_agree_step:
  "answers_agree s \<Longrightarrow> answers_agree (fst (update_database conn s p l st now))"
  using update_database_fst_cases [of conn s p l st now]
  by (auto simp: answers_agree_insert answers_agree_update)

lemma answers_agree_update_all:
  "answers_agree s \<Longrightarrow> answers_agree (update_all s cs)"
  by (induction s cs rule: update_all.induct) (simp_all add: answers_agree_step)

lemma answers_agree_Nil: "answers_agree []"
  by (simp add: answers_agree_def)

lemma same_answer_iff:
  "same_answer s \<longleftrightarrow> answers_agree s \<and> (\<forall>r\<in>set s. answer r \<noteq> None)"
  unfolding same_answer_def answers_agree_def by blast

lemma has_answer_step:
  assumes "\<forall>r\<in>set s. answer r \<noteq> None" "s_answer st \<noteq> None"
  shows "\<forall>r\<in>set (fst (update_database conn s p l st now)). answer r \<noteq> None"
  using update_database_fst_cases [of conn s p l st now] assms
  by (auto simp: update_rows_def)

lemma has_answer_update_all:
  "\<forall>r\<in>set s. answer r \<noteq> None \<Longrightarrow> \<forall>c\<in>set cs. s_answer (fst (snd (snd c))) \<noteq> None
     \<Longrightarrow> \<forall>r\<in>set (update_all s cs). answer r \<noteq> None"
proof (induction s cs rule: update_all.induct)
  case (1 s)
  then show ?case by simp
next
  case (2 s p l st now cs)
  from 2(3) have "s_answer st \<noteq> None" by simp
  from has_answer_step [OF 2(2) this] have
    "\<forall>r\<in>set (fst (update_database (Some Connection) s p l st now)). answer r \<noteq> None" .
  from 2(1) [OF this] 2(3) show ?case by simp
qed

lemma update_rows_keys:
  "map (\<lambda>r. (problem r, language r)) (update_rows s p l st now)
     = map (\<lambda>r. (problem r, language r)) s"
  by (induction s) (simp_all add: update_rows_def)

lemma primary_key_step:
  "primary_key s \<Longrightarrow> primary_key (fst (update_database conn s p l st now))"
  using update_database_fst_cases [of conn s p l st now]
  by (auto simp: primary_key_def select_min_time_None update_rows_keys)

lemma primary_key_update_all:
  "primary_key s \<Longrightarrow> primary_key (update_all s cs)"
  by (induction s cs rule: update_all.induct) (simp_all add: primary_key_step)

text \<open>
  Claim C8. When the store has no record for the key \<open>(p, l)\<close> and every answer stored
  for problem \<open>p\<close> is the new one (or null), \<^verbatim>\<open>update_database\<close> appends a record
  holding exactly the given statistics and the current timestamp, returns the status
  \<^verbatim>\<open>"new"\<close>, and the store then has exactly one record for the key.
\<close>

theorem update_database_new:
  assumes absent: "\<forall>r\<in>set s. problem r = p \<longrightarrow> language r \<noteq> l"
    and agree: "\<forall>r\<in>set s. problem r = p \<longrightarrow> answer r = None \<or> answer r = s_answer st"
  shows "update_database (Some Connection) s p l st now =
           (s @ [\<lparr>problem = p, language = l, min_time = s_min st, avg_time = s_avg st,
                  max_time = s_max st, stdev = s_stdev st, timestamp = now,
                  answer = s_answer st\<rparr>], Inr (True, ''new''))
         \<and> filter (\<lambda>r. problem r = p \<and> language r = l)
              (fst (update_database (Some Connection) s p l st now)) =
             [\<lparr>problem = p, language = l, min_time = s_min st, avg_time = s_avg st,
               max_time = s_max st, stdev = s_stdev st, timestamp = now,
               answer = s_answer st\<rparr>]"
proof -
  have chk: "answer_check s p st = None" using agree by (rule answer_check_pass)
  have sel: "select_min_time s p l = None" using absent by (simp add: select_min_time_None)
  have old: "filter (\<lambda>r. problem r = p \<and> language r = l) s = []"
    using absent by (auto simp: filter_empty_conv)
  have res: "update_database (Some Connection) s p l st now =
               (s @ [new_row p l st now], Inr (True, ''new''))"
    by (simp add: update_database_def chk sel)
  show ?thesis
    unfolding res by (simp add: old) (simp add: new_row_def)
qed

theorem update_database_new_witness:
  "update_database (Some Connection)
      [\<lparr>problem = 1, language = ''go'', min_time = 3/10, avg_time = 4/10, max_time = 5/10,
        stdev = 1/10, timestamp = ''2025-01-01T00:00:00'', answer = Some ''42''\<rparr>]
      1 ''python''
      \<lparr>s_avg = 6/10, s_min = 5/10, s_max = 7/10, s_stdev = 1/10, s_answer = Some ''42''\<rparr>
      ''2025-01-02T00:00:00''
    = ([\<lparr>problem = 1, language = ''go'', min_time = 3/10, avg_time = 4/10, max_time = 5/10,
         stdev = 1/10, timestamp = ''2025-01-01T00:00:00'', answer = Some ''42''\<rparr>,
        \<lparr>problem = 1, language = ''python'', min_time = 5/10, avg_time = 6/10, max_time = 7/10,
         stdev = 1/10, timestamp = ''2025-01-02T00:00:00'', answer = Some ''42''\<rparr>],
       Inr (True, ''new''))"
  using update_database_new [of
      "[\<lparr>problem = 1, language = ''go'', min_time = 3/10, avg_time = 4/10, max_time = 5/10,
        stdev = 1/10, timestamp = ''2025-01-01T00:00:00'', answer = Some ''42''\<rparr>]"
      1 "''python''"
      "\<lparr>s_avg = 6/10, s_min = 5/10, s_max = 7/10, s_stdev = 1/10, s_answer = Some ''42''\<rparr>"
      "''2025-01-02T00:00:00''"]
  by simp

lemma update_rows_primary_key:
  assumes "primary_key s" "r \<in> set s" "problem r = p" "language r = l"
  shows "update_rows s p l st now = map (\<lambda>r'. if r' = r then new_row p l st now else r') s"
proof -
  have "(if problem r' = p \<and> language r' = l
         then r'\<lparr>min_time := s_min st, avg_time := s_avg st, max_time := s_max st,
                 stdev := s_stdev st, timestamp := now, answer := s_answer st\<rparr>
         else r') = (if r' = r then new_row p l st now else r')" if "r' \<in> set s" for r'
  proof (cases "r' = r")
    case True
    then show ?thesis using assms(3,4) by (simp add: new_row_def)
  next
    case False
    have "(problem r', language r') \<noteq> (problem r, language r)"
      using assms(1,2) that False unfolding primary_key_def
      by (metis (mono_tags, lifting) distinct_map inj_onD)
    then show ?thesis using False assms(3,4) by auto
  qed
  then show ?thesis unfolding update_rows_def by (intro map_cong) simp_all
qed

text \<open>
  Claim C1, amended. When the store (with its primary key) has a record \<open>r\<close> for the key
  \<open>(p, l)\<close> and the call passes the answer validation: if the new minimum is strictly
  lower than the stored one, all of min/avg/max/stdev/timestamp/answer of that record are
  overwritten in place, every other record is left as it is, and the status is
  \<^verbatim>\<open>"improved"\<close>; otherwise the store is not changed and the call returns
  \<^verbatim>\<open>(False, "slower")\<close>.
\<close>

theorem update_database_existing:
  assumes pk: "primary_key s"
    and r: "r \<in> set s" "problem r = p" "language r = l"
    and agree: "\<forall>r'\<in>set s. problem r' = p \<longrightarrow> answer r' = None \<or> answer r' = s_answer st"
  shows "update_database (Some Connection) s p l st now =
           (if s_min st < min_time r
            then (map (\<lambda>r'. if r' = r
                        then \<lparr>problem = p, language = l, min_time = s_min st,
                              avg_time = s_avg st, max_time = s_max st, stdev = s_stdev st,
                              timestamp = now, answer = s_answer st\<rparr>
                        else r') s,
                  Inr (True, ''improved''))
            else (s, Inr (False, ''slower'')))"
proof -
  have chk: "answer_check s p st = None" using agree by (rule answer_check_pass)
  have sel: "select_min_time s p l = Some (min_time r)"
    using pk r by (rule select_min_time_Some)
  show ?thesis
    by (simp add: update_database_def chk sel update_rows_primary_key [OF pk r]
        new_row_def [symmetric])
qed

text \<open>
  Claim C2. In every store built from the empty one by calls of \<^verbatim>\<open>update_database\<close>:
  when some record of problem \<open>p\<close>, of any language, has an answer that differs from the
  new one, the call raises the answer-mismatch \<^verbatim>\<open>ValueError\<close> and the store stays as
  it was.
\<close>

theorem update_database_mismatch:
  assumes "r \<in> set (update_all [] cs)" "problem r = p" "answer r = Some a"
    and "s_answer st \<noteq> Some a"
  shows "update_database (Some Connection) (update_all [] cs) p l st now =
           (update_all [] cs, Inl (ValueError (mismatch_message p a (s_answer st))))"
proof -
  have "answers_agree (update_all [] cs)"
    by (rule answers_agree_update_all) (rule answers_agree_Nil)
  from answer_check_agree [OF this assms(1-3), of st] assms(4)
  show ?thesis by (simp add: update_database_def)
qed

text \<open>
  Claim C5. A call of \<^verbatim>\<open>update_database\<close> keeps the records of one problem in
  agreement on their answers; so they agree in every store built from the empty one, and
  when each call brings a text answer, as every result of \<^verbatim>\<open>benchmark\<close> does, all
  records of one problem carry the identical answer.
\<close>

theorem update_database_answers_agree:
  "(answers_agree s \<longrightarrow> answers_agree (fst (update_database conn s p l st now)))
   \<and> answers_agree (update_all [] cs)
   \<and> ((\<forall>c\<in>set cs. s_answer (fst (snd (snd c))) \<noteq> None) \<longrightarrow> same_answer (update_all [] cs))"
proof (intro conjI impI)
  assume "answers_agree s"
  then show "answers_agree (fst (update_database conn s p l st now))"
    by (rule answers_agree_step)
next
  show "answers_agree (update_all [] cs)"
    by (rule answers_agree_update_all) (rule answers_agree_Nil)
next
  assume "\<forall>c\<in>set cs. s_answer (fst (snd (snd c))) \<noteq> None"
  with has_answer_update_all [of "[]" cs]
  have "\<forall>r\<in>set (update_all [] cs). answer r \<noteq> None" by simp
  moreover have "answers_agree (update_all [] cs)"
    by (rule answers_agree_update_all) (rule answers_agree_Nil)
  ultimately show "same_answer (update_all [] cs)" by (simp add: same_answer_iff)
qed

text \<open>
  Claim C1 as it is written fails: on a record with minimum 0.5, a call with minimum 0.6
  returns the status \<^verbatim>\<open>"slower"\<close>, not \<^verbatim>\<open>"unchanged"\<close>; and a call with the lower
  minimum 0.4 but another answer raises instead of overwriting the record.
\<close>

theorem update_database_existing_counterexample:
  "update_database (Some Connection) [ex_row] 1 ''python'' (ex_stats (6/10) ''42'') ex_now
     = ([ex_row], Inr (False, ''slower''))
   \<and> snd (update_database (Some Connection) [ex_row] 1 ''python'' (ex_stats (6/10) ''42'')
          ex_now) \<noteq> Inr (False, ''unchanged'')
   \<and> update_database (Some Connection) [ex_row] 1 ''python'' (ex_stats (4/10) ''43'') ex_now
     = ([ex_row], Inl (ValueError (mismatch_message 1 ''42'' (Some ''43''))))"
  by (simp add: update_database_def answer_check_def select_answer_def select_min_time_def
      ex_row_def ex_stats_def)

theorem update_database_existing_witness:
  "update_database (Some Connection) [ex_row] 1 ''python'' (ex_stats (4/10) ''42'') ex_now
     = ([\<lparr>problem = 1, language = ''python'', min_time = 4/10, avg_time = 5/10,
          max_time = 6/10, stdev = 1/10, timestamp = ex_now, answer = Some ''42''\<rparr>],
        Inr (True, ''improved''))
   \<and> update_database (Some Connection) [ex_row] 1 ''python'' (ex_stats (6/10) ''42'') ex_now
     = ([ex_row], Inr (False, ''slower''))"
  using update_database_existing [of "[ex_row]" ex_row 1 "''python''" "ex_stats (4/10) ''42''" ex_now]
    update_database_existing [of "[ex_row]" ex_row 1 "''python''" "ex_stats (6/10) ''42''" ex_now]
  by (simp add: primary_key_def ex_row_def ex_stats_def)

theorem update_database_mismatch_witness:
  "update_database (Some Connection)
      (update_all [] [(1, ''python'', ex_stats (5/10) ''42'', ''2025-01-01T00:00:00'')])
      1 ''go'' (ex_stats (4/10) ''43'') ex_now
     = ([ex_row], Inl (ValueError (mismatch_message 1 ''42'' (Some ''43''))))"
proof -
  have s: "update_all [] [(1, ''python'', ex_stats (5/10) ''42'', ''2025-01-01T00:00:00'')]
             = [ex_row]"
    by (simp add: update_database_def answer_check_def select_answer_def select_min_time_def
        new_row_def ex_row_def ex_stats_def)
  show ?thesis
    using update_database_mismatch [of ex_row
        "[(1, ''python'', ex_stats (5/10) ''42'', ''2025-01-01T00:00:00'')]" 1 "''42''"
        "ex_stats (4/10) ''43''" "''go''" ex_now]
    unfolding s by (simp add: ex_row_def ex_stats_def)
qed

lemma ex_calls_store:
  "update_all [] ex_calls =
     [ex_row,
      \<lparr>problem = 1, language = ''go'', min_time = 3/10, avg_time = 4/10, max_time = 5/10,
        stdev = 1/10, timestamp = ''2025-01-01T00:00:01'', answer = Some ''42''\<rparr>,
      \<lparr>problem = 2, language = ''python'', min_time = 9/10, avg_time = 1, max_time = 11/10,
        stdev = 1/10, timestamp = ''2025-01-01T00:00:03'', answer = Some ''7''\<rparr>]"
  by (simp add: ex_calls_def update_database_def answer_check_def select_answer_def
      select_min_time_def new_row_def ex_row_def ex_stats_def)

theorem update_database_answers_agree_witness:
  "answers_agree (fst (update_database (Some Connection) [ex_row] 1 ''go''
      (ex_stats (3/10) ''42'') ex_now))
   \<and> answers_agree (update_all [] ex_calls)
   \<and> same_answer (update_all [] ex_calls)
   \<and> length (update_all [] ex_calls) = 3"
proof -
  have a: "answers_agree [ex_row]" by (simp add: answers_agree_def)
  have b: "\<forall>c\<in>set ex_calls. s_answer (fst (snd (snd c))) \<noteq> None"
    by (simp add: ex_calls_def ex_stats_def)
  show ?thesis
    using update_database_answers_agree [of "[ex_row]" "Some Connection" 1 "''go''"
        "ex_stats (3/10) ''42''" ex_now ex_calls] a b
    by (simp add: ex_calls_store)
qed

section \<open>Properties of the timing sampler\<close>

lemma warm_up_ok:
  "\<forall>i<n. \<exists>out t. run (k + i) = Exit_zero out t \<Longrightarrow> warm_up run k n = (None, k + n)"
proof (induction n arbitrary: k)
  case 0
  then show ?case by simp
next
  case (Suc n)
  from Suc.prems have "\<exists>out t. run (k + 0) = Exit_zero out t" by blast
  then obtain out t where r: "run k = Exit_zero out t" by auto
  have "\<forall>i<n. \<exists>out t. run (Suc k + i) = Exit_zero out t"
    using Suc.prems by (metis Suc_less_eq add_Suc_shift)
  from Suc.IH [OF this] show ?case by (simp add: run_command_def r)
qed

lemma measured_same:
  assumes "\<forall>i<n. \<exists>out. run (k + i) = Exit_zero out (t i) \<and> strip out = a"
  shows "measured run k n tms (Some a) = (Inr (tms @ map t [0..<n], Some a), k + n)"
  using assms
proof (induction n arbitrary: k tms t)
  case 0
  then show ?case by simp
next
  case (Suc n)
  from Suc.prems have "\<exists>out. run (k + 0) = Exit_zero out (t 0) \<and> strip out = a" by blast
  then obtain out where r: "run k = Exit_zero out (t 0)" "strip out = a" by auto
  have "\<forall>i<n. \<exists>out. run (Suc k + i) = Exit_zero out (t (Suc i)) \<and> strip out = a"
    using Suc.prems by (metis Suc_less_eq add_Suc_shift)
  from Suc.IH [OF this, of "tms @ [t 0]"]
  have "measured run (Suc k) n (tms @ [t 0]) (Some a)
          = (Inr (tms @ t 0 # map (\<lambda>i. t (Suc i)) [0..<n], Some a), Suc k + n)" by simp
  moreover have "t 0 # map (\<lambda>i. t (Suc i)) [0..<n] = map t [0..<Suc n]"
    by (simp only: map_Suc_upt [symmetric] upt_conv_Cons [of 0 "Suc n"] zero_less_Suc list.map if_True)
       (simp add: comp_def)
  ultimately show ?case by (simp add: run_command_def r del: upt_Suc)
qed

lemma map_upt_shift: "f 0 # map (\<lambda>i. f (Suc i)) [0..<n] = map f [0..<Suc n]"
  by (induction n) simp_all

lemma measured_first:
  assumes "0 < n" and "\<forall>i<n. \<exists>out. run (k + i) = Exit_zero out (t i) \<and> strip out = a"
  shows "measured run k n [] None = (Inr (map t [0..<n], Some a), k + n)"
proof -
  from assms(1) obtain m where n: "n = Suc m" by (cases n) auto
  from assms(2) n have "\<exists>out. run (k + 0) = Exit_zero out (t 0) \<and> strip out = a" by blast
  then obtain out where r: "run k = Exit_zero out (t 0)" "strip out = a" by auto
  have "\<forall>i<m. \<exists>out. run (Suc k + i) = Exit_zero out (t (Suc i)) \<and> strip out = a"
    using assms(2) n by (metis Suc_less_eq add_Suc_shift)
  from measured_same [OF this, of "[t 0]"]
  have "measured run (Suc k) m [t 0] (Some a)
          = (Inr (t 0 # map (\<lambda>i. t (Suc i)) [0..<m], Some a), Suc k + m)" by simp
  then show ?thesis
    unfolding n map_upt_shift by (simp add: run_command_def r del: upt_Suc)
qed

lemma foldl_min:
  "foldl (\<lambda>m y. if y < m then y else m) (x::real) xs = Min (insert x (set xs))"
proof (induction xs arbitrary: x)
  case Nil
  then show ?case by simp
next
  case (Cons y ys)
  have "(if y < x then y else x) = min x y" by (simp add: min_def)
  moreover have "Min (insert (min x y) (set ys)) = Min (insert x (insert y (set ys)))"
    by (cases "set ys = {}") (simp_all add: min.assoc)
  ultimately show ?case by (simp add: Cons.IH)
qed

lemma foldl_max:
  "foldl (\<lambda>m y. if y > m then y else m) (x::real) xs = Max (insert x (set xs))"
proof (induction xs arbitrary: x)
  case Nil
  then show ?case by simp
next
  case (Cons y ys)
  have "(if y > x then y else x) = max x y" by (simp add: max_def)
  moreover have "Max (insert (max x y) (set ys)) = Max (insert x (insert y (set ys)))"
    by (cases "set ys = {}") (simp_all add: max.assoc)
  ultimately show ?case by (simp add: Cons.IH)
qed

lemma minimum_Min: "xs \<noteq> [] \<Longrightarrow> minimum xs = Min (set xs)"
  by (cases xs) (simp_all add: foldl_min)

lemma maximum_Max: "xs \<noteq> [] \<Longrightarrow> maximum xs = Max (set xs)"
  by (cases xs) (simp_all add: foldl_max)

text \<open>
  Claim C6. When all launches of the warm-up and of the \<open>runs \<ge> 1\<close> measured runs exit with
  0 and the measured runs all give the same output, \<^verbatim>\<open>benchmark\<close> returns statistics
  whose min, avg and max are the minimum, the arithmetic mean and the maximum of the
  measured durations, whose stdev is their sample (N-1) standard deviation for two runs or
  more and 0 for one run, and whose answer is the output of the first measured run.
\<close>

theorem benchmark_stats:
  assumes runs: "0 < runs"
    and ok: "\<forall>i<warmup + runs. run (k + i) = Exit_zero (out i) (t i)"
    and same: "\<forall>i<runs. strip (out (warmup + i)) = strip (out warmup)"
  shows "benchmark run k runs warmup =
           (let ds = map (\<lambda>i. t (warmup + i)) [0..<runs];
                mean = sum_list ds / real runs
            in (Inr \<lparr>s_avg = mean,
                     s_min = Min (set ds),
                     s_max = Max (set ds),
                     s_stdev = (if runs = 1 then 0
                                else sqrt (sum_list (map (\<lambda>d. (d - mean)\<^sup>2) ds) / real (runs - 1))),
                     s_answer = Some (strip (out warmup))\<rparr>,
                k + warmup + runs))"
proof -
  define ds where "ds = map (\<lambda>i. t (warmup + i)) [0..<runs]"
  have w: "warm_up run k warmup = (None, k + warmup)"
    by (rule warm_up_ok) (use ok in auto)
  have "\<forall>i<runs. \<exists>o'. run (k + warmup + i) = Exit_zero o' (t (warmup + i))
          \<and> strip o' = strip (out warmup)"
    using ok same by (simp add: add.assoc)
  from measured_first [OF runs this]
  have m: "measured run (k + warmup) runs [] None
             = (Inr (ds, Some (strip (out warmup))), k + warmup + runs)"
    by (simp add: ds_def)
  have ne: "ds \<noteq> []" and len: "length ds = runs" using runs by (simp_all add: ds_def)
  have "benchmark run k runs warmup =
          (Inr \<lparr>s_avg = statistics_mean ds, s_min = minimum ds, s_max = maximum ds,
                s_stdev = (if length ds > 1 then statistics_stdev ds else 0),
                s_answer = Some (strip (out warmup))\<rparr>, k + warmup + runs)"
    by (simp add: benchmark_def w m ne)
  also have "\<dots> =
          (Inr \<lparr>s_avg = sum_list ds / real runs, s_min = Min (set ds), s_max = Max (set ds),
                s_stdev = (if runs = 1 then 0
                   else sqrt (sum_list (map (\<lambda>d. (d - sum_list ds / real runs)\<^sup>2) ds)
                          / real (runs - 1))),
                s_answer = Some (strip (out warmup))\<rparr>, k + warmup + runs)"
    using runs
    by (auto simp: statistics_mean_def statistics_stdev_def minimum_Min [OF ne]
        maximum_Max [OF ne] len)
  finally show ?thesis by (simp add: Let_def ds_def)
qed

lemma measured_differs:
  assumes "\<forall>i<j. \<exists>out. run (k + i) = Exit_zero out (t i) \<and> strip out = a"
    and "run (k + j) = Exit_zero o' t'" and "strip o' \<noteq> a" and "j < n"
  shows "measured run k n tms (Some a)
           = (Inl (ValueError (inconsistent_message a (strip o'))), k + j + 1)"
  using assms
proof (induction j arbitrary: k n tms t)
  case 0
  from \<open>0 < n\<close> obtain m where n: "n = Suc m" by (cases n) auto
  from 0(2,3) show ?case by (simp add: n run_command_def)
next
  case (Suc j)
  from \<open>Suc j < n\<close> obtain m where n: "n = Suc m" and m: "j < m" by (cases n) auto
  from Suc.prems(1) have "\<exists>out. run (k + 0) = Exit_zero out (t 0) \<and> strip out = a" by blast
  then obtain out where r: "run k = Exit_zero out (t 0)" "strip out = a" by auto
  have 1: "\<forall>i<j. \<exists>out. run (Suc k + i) = Exit_zero out (t (Suc i)) \<and> strip out = a"
    using Suc.prems(1) by (metis Suc_less_eq add_Suc_shift)
  have 2: "run (Suc k + j) = Exit_zero o' t'" using Suc.prems(2) by simp
  from Suc.IH [OF 1 2 Suc.prems(3) m, of "tms @ [t 0]"]
  show ?case by (simp add: n run_command_def r)
qed

text \<open>
  Claim C7. When the measured run \<open>j\<close> is the first whose output differs from the output
  of the first measured run (the launches up to it exiting with 0), \<^verbatim>\<open>benchmark\<close>
  raises the inconsistency \<^verbatim>\<open>ValueError\<close> naming both outputs right after that run,
  with no further launch, and returns no statistics.
\<close>

theorem benchmark_inconsistent:
  assumes j: "j < runs"
    and ok: "\<forall>i<warmup + j + 1. run (k + i) = Exit_zero (out i) (t i)"
    and same: "\<forall>i<j. strip (out (warmup + i)) = strip (out warmup)"
    and differs: "strip (out (warmup + j)) \<noteq> strip (out warmup)"
  shows "benchmark run k runs warmup =
           (Inl (ValueError (inconsistent_message (strip (out warmup))
                   (strip (out (warmup + j))))),
            k + warmup + j + 1)"
proof -
  have w: "warm_up run k warmup = (None, k + warmup)"
    by (rule warm_up_ok) (use ok in auto)
  from differs obtain j' where j': "j = Suc j'" by (cases j) auto
  from j j' obtain m where runs: "runs = Suc m" and m: "j' < m" by (cases runs) auto
  have first: "run (k + warmup) = Exit_zero (out warmup) (t warmup)"
    using ok [rule_format, of warmup] by simp
  have 1: "\<forall>i<j'. \<exists>o'. run (Suc (k + warmup) + i) = Exit_zero o' (t (warmup + Suc i))
             \<and> strip o' = strip (out warmup)"
  proof (intro allI impI)
    fix i assume i: "i < j'"
    then have "warmup + Suc i < warmup + j + 1" using j' by simp
    with ok have "run (k + (warmup + Suc i)) = Exit_zero (out (warmup + Suc i)) (t (warmup + Suc i))"
      by blast
    moreover have "strip (out (warmup + Suc i)) = strip (out warmup)"
      using same [rule_format, of "Suc i"] i j' by simp
    ultimately show "\<exists>o'. run (Suc (k + warmup) + i) = Exit_zero o' (t (warmup + Suc i))
             \<and> strip o' = strip (out warmup)" by (simp add: add.assoc)
  qed
  have 2: "run (Suc (k + warmup) + j') = Exit_zero (out (warmup + j)) (t (warmup + j))"
    using ok [rule_format, of "warmup + j"] j' by (simp add: add.assoc)
  from measured_differs [OF 1 2 differs m, of "[t warmup]"]
  have "measured run (k + warmup) runs [] None =
          (Inl (ValueError (inconsistent_message (strip (out warmup))
                  (strip (out (warmup + j))))), k + warmup + j + 1)"
    by (simp add: runs run_command_def first j')
  then show ?thesis by (simp add: benchmark_def w)
qed

lemma strip_examples:
  "strip ''0'' = ''0''" "strip [CHR ''4'', CHR ''2'', newline] = ''42''" "strip '' 42'' = ''42''"
  "strip ''42'' = ''42''" "strip ''43'' = ''43''"
  by (simp_all add: strip_def isspace_def newline_def)

theorem benchmark_stats_witness:
  "benchmark ex_steady 0 2 1 =
     (Inr \<lparr>s_avg = 2, s_min = 1, s_max = 3, s_stdev = sqrt 2, s_answer = Some ''42''\<rparr>, 3)
   \<and> benchmark ex_steady 0 1 1 =
     (Inr \<lparr>s_avg = 1, s_min = 1, s_max = 1, s_stdev = 0, s_answer = Some ''42''\<rparr>, 2)"
proof -
  let ?out = "\<lambda>i::nat. if i = 0 then ''0'' else if i = 1 then ''42'' @ [newline] else '' 42''"
  let ?t = "\<lambda>i::nat. if i = 0 then 9 else if i = 1 then 1 else (3::real)"
  have ok: "\<forall>i<n. ex_steady (0 + i) = Exit_zero (?out i) (?t i)" for n
    by (simp add: ex_steady_def)
  have same: "\<forall>i<n. strip (?out (1 + i)) = strip (?out 1)" for n
    by (simp add: strip_examples)
  show ?thesis
    using benchmark_stats [of 2 1 ex_steady 0 ?out ?t, OF _ ok same]
      benchmark_stats [of 1 1 ex_steady 0 ?out ?t, OF _ ok same]
    by (simp add: strip_examples Let_def upt_conv_Cons power2_eq_square)
qed

theorem benchmark_inconsistent_witness:
  "benchmark ex_flaky 0 5 1 = (Inl (ValueError (inconsistent_message ''42'' ''43'')), 4)"
proof -
  let ?out = "\<lambda>i::nat. if i = 3 then ''43'' else ''42''"
  let ?t = "\<lambda>i::nat. if i = 3 then 2 else (1::real)"
  have ok: "\<forall>i<n. ex_flaky (0 + i) = Exit_zero (?out i) (?t i)" for n
    by (simp add: ex_flaky_def)
  have same: "\<forall>i<2. strip (?out (1 + i)) = strip (?out 1)"
    by (simp add: strip_examples)
  show ?thesis
    using benchmark_inconsistent [of 2 5 1 ex_flaky 0 ?out ?t, OF _ ok same]
    by (simp add: strip_examples)
qed

section \<open>Properties of problem discovery\<close>

lemma str_split_not_Nil: "str_split c s \<noteq> []"
  by (induction s) (auto split: list.splits)

lemma str_split_problem:
  assumes "take 8 name = ''problem-''"
  shows "\<exists>rest. str_split CHR ''-'' name = ''problem'' # rest \<and> rest \<noteq> []"
proof -
  from assms have "name = ''problem-'' @ drop 8 name"
    by (metis append_take_drop_id)
  then obtain r where name: "name = ''problem-'' @ r" ..
  obtain w ws where "str_split CHR ''-'' r = w # ws"
    using str_split_not_Nil [of "CHR ''-''" r] by (cases "str_split CHR ''-'' r") auto
  then show ?thesis by (simp add: name)
qed

lemma collect_map_filter:
  assumes "\<forall>e\<in>set es. take 8 (fst e) = ''problem-''"
  shows "collect config es problems = Inr (problems @ List.map_filter (entry_of config) es)"
  using assms
proof (induction es arbitrary: problems)
  case Nil
  then show ?case by (simp add: List.map_filter_simps)
next
  case (Cons e es)
  obtain name d where e: "e = (name, d)" by (cases e)
  from Cons.prems e have "take 8 name = ''problem-''" by simp
  from str_split_problem [OF this] obtain f fs where
    sp: "str_split CHR ''-'' name = ''problem'' # f # fs"
    by (metis list.exhaust)
  have IH: "collect config es ps = Inr (ps @ List.map_filter (entry_of config) es)" for ps
    using Cons.IH Cons.prems by simp
  have en: "entry_of config (name, d) =
      (if is_dir d \<and> map_of (entries d) (file_pattern config) \<noteq> None
       then map_option (\<lambda>num. \<lparr>number = num, path = name\<rparr>) (py_int f) else None)"
    by (auto simp: entry_of_def problem_number_def sp)
  show ?case
    by (cases "py_int f") (auto simp: e sp IH List.map_filter_simps en)
qed

lemma glob_problem_prefix: "\<forall>e\<in>set (sort_key fst (glob_problem es)). take 8 (fst e) = ''problem-''"
  by (auto simp: glob_problem_def)

lemma path_entry_of: "entry_of config e = Some p \<Longrightarrow> path p = fst e"
  by (auto simp: entry_of_def split: if_splits)

lemma sorted_map_filter:
  "sorted (map fst es) \<Longrightarrow> sorted (map path (List.map_filter (entry_of config) es))"
proof (induction es)
  case Nil
  then show ?case by (simp add: List.map_filter_simps)
next
  case (Cons e es)
  have sub: "path p \<in> fst ` set es" if "p \<in> set (List.map_filter (entry_of config) es)" for p
  proof -
    from that obtain e' where "e' \<in> set es" "entry_of config e' = Some p"
      by (auto simp: List.map_filter_def)
    then show ?thesis using path_entry_of by fastforce
  qed
  show ?case
  proof (cases "entry_of config e")
    case None
    with Cons show ?thesis by (simp add: List.map_filter_simps)
  next
    case (Some p)
    have "fst e \<le> path q" if "q \<in> set (List.map_filter (entry_of config) es)" for q
    proof -
      from sub [OF that] obtain e' where "e' \<in> set es" "path q = fst e'" by auto
      with Cons.prems show ?thesis by auto
    qed
    with Cons Some path_entry_of [OF Some] show ?thesis
      by (auto simp: List.map_filter_simps)
  qed
qed

text \<open>
  Claim C9, amended. \<^verbatim>\<open>discover_problems\<close> never raises. For an unknown language or an
  absent language directory it returns the empty list. Otherwise it returns one entry for
  exactly those entries of the language directory whose name starts with \<^verbatim>\<open>problem-\<close>,
  that are directories holding the entry-point file, and where \<^verbatim>\<open>int\<close> accepts the text
  between the first and the second \<^verbatim>\<open>-\<close> of the name; the entries come in ascending
  lexicographic order of the directory names.
\<close>

theorem discover_problems_entries:
  "discover_problems lang project_root =
     (case map_of LANGUAGE_CONFIGS lang of
        None \<Rightarrow> Inr []
      | Some config \<Rightarrow>
          (case map_of project_root (dir config) of
             None \<Rightarrow> Inr []
           | Some lang_dir \<Rightarrow>
               Inr (List.map_filter (entry_of config)
                      (sort_key fst (glob_problem (entries lang_dir))))))
   \<and> (\<forall>ps. discover_problems lang project_root = Inr ps \<longrightarrow> sorted (map path ps))"
proof -
  have 1: "discover_problems lang project_root =
     (case map_of LANGUAGE_CONFIGS lang of
        None \<Rightarrow> Inr []
      | Some config \<Rightarrow>
          (case map_of project_root (dir config) of
             None \<Rightarrow> Inr []
           | Some lang_dir \<Rightarrow>
               Inr (List.map_filter (entry_of config)
                      (sort_key fst (glob_problem (entries lang_dir))))))"
    by (simp add: discover_problems_def collect_map_filter [OF glob_problem_prefix]
        split: option.splits)
  have 2: "sorted (map path ps)" if "discover_problems lang project_root = Inr ps" for ps
    using that unfolding 1
    by (auto split: option.splits intro!: sorted_map_filter)
  from 1 2 show ?thesis by blast
qed

lemma ex_root_sorted:
  "sort_key fst (glob_problem (entries (Dir
       [(''problem-abc'', Dir [(''main.py'', File)]),
        (''problem-4'', Dir [(''main.py'', File)]),
        (''notes.txt'', File),
        (''problem-5'', Dir [(''README'', File)]),
        (''problem-3'', Dir [(''main.py'', File)])]))) =
     [(''problem-3'', Dir [(''main.py'', File)]),
      (''problem-4'', Dir [(''main.py'', File)]),
      (''problem-5'', Dir [(''README'', File)]),
      (''problem-abc'', Dir [(''main.py'', File)])]"
  by (simp add: glob_problem_def)

lemma ex_root_discovered:
  "discover_problems ''python'' ex_root =
     Inr [\<lparr>number = 3, path = ''problem-3''\<rparr>, \<lparr>number = 4, path = ''problem-4''\<rparr>]"
  by code_simp

theorem discover_problems_entries_witness:
  "discover_problems ''python'' ex_root =
     Inr [\<lparr>number = 3, path = ''problem-3''\<rparr>, \<lparr>number = 4, path = ''problem-4''\<rparr>]
   \<and> sorted (map path [\<lparr>number = 3, path = ''problem-3''\<rparr>, \<lparr>number = 4, path = ''problem-4''\<rparr>])
   \<and> discover_problems ''rust'' ex_root = Inr []
   \<and> discover_problems ''python'' [(''benchmark'', Dir [])] = Inr []"
  using discover_problems_entries [of "''python''" ex_root]
    discover_problems_entries [of "''rust''" ex_root]
    discover_problems_entries [of "''python''" "[(''benchmark'', Dir [])]"]
  by (simp add: ex_root_discovered LANGUAGE_CONFIGS_def)

text \<open>
  Claim C9 as it is written fails on a directory holding \<^verbatim>\<open>problem-3\<close>,
  \<^verbatim>\<open>problem-3-old\<close> and \<^verbatim>\<open>problem-10\<close>: the directory \<^verbatim>\<open>problem-3-old\<close> is not
  skipped but yields a second entry numbered 3, and the numbers come as 10, 3, 3.
\<close>

theorem discover_problems_entries_counterexample:
  "discover_problems ''python'' ex_root_old =
     Inr [\<lparr>number = 10, path = ''problem-10''\<rparr>,
          \<lparr>number = 3, path = ''problem-3''\<rparr>,
          \<lparr>number = 3, path = ''problem-3-old''\<rparr>]"
  by code_simp

section \<open>Properties of the bundled solutions\<close>

lemma first_divisor_1: "first_divisor 600851475143 2 300425737571 = Some 71"
  by code_simp

lemma first_divisor_2: "first_divisor 71 2 35 = None"
  by code_simp

lemma first_divisor_3: "first_divisor 8462696833 2 4231348416 = Some 839"
  by code_simp

lemma first_divisor_4: "first_divisor 839 2 419 = None"
  by code_simp

lemma first_divisor_5: "first_divisor 10086647 2 5043323 = Some 1471"
  by code_simp

lemma first_divisor_6: "first_divisor 1471 2 735 = None"
  by code_simp

lemma first_divisor_7: "first_divisor 6857 2 3428 = None"
  by code_simp

lemma scan_1: "scan_factors [600851475143] [] False = ([8462696833, 71], True)"
  by (simp add: first_divisor_1)

lemma scan_2: "scan_factors [8462696833, 71] [] False = ([10086647, 839], True)"
  by (simp add: first_divisor_2 first_divisor_3)

lemma scan_3: "scan_factors [10086647, 839] [] False = ([6857, 1471], True)"
  by (simp add: first_divisor_4 first_divisor_5)

lemma scan_4: "scan_factors [6857, 1471] [] False = ([], False)"
  by (simp add: first_divisor_6 first_divisor_7)

lemma factor_loop_result: "factor_loop [600851475143] = Some [6857, 1471]"
proof -
  have "factor_loop [600851475143] = factor_loop [8462696833, 71]"
    by (subst factor_loop.simps) (simp add: scan_1 del: scan_factors.simps)
  also have "\<dots> = factor_loop [10086647, 839]"
    by (subst factor_loop.simps) (simp add: scan_2 del: scan_factors.simps)
  also have "\<dots> = factor_loop [6857, 1471]"
    by (subst factor_loop.simps) (simp add: scan_3 del: scan_factors.simps)
  also have "\<dots> = Some [6857, 1471]"
    by (subst factor_loop.simps) (simp add: scan_4 del: scan_factors.simps)
  finally show ?thesis .
qed

lemma str_int_6857: "str_int 6857 = ''6857''"
  by code_simp

lemma digit_char_newline: "0 \<le> d \<Longrightarrow> d < 10 \<Longrightarrow> digit_char d \<noteq> newline"
proof
  assume d: "0 \<le> d" "d < 10" and "digit_char d = newline"
  then have "of_char (digit_char d) = (of_char newline :: int)" by simp
  then have "(48 + d) mod 256 = 10" by (simp add: digit_char_def newline_def)
  with d show False by simp
qed

lemma str_digits_newline: "0 \<le> n \<Longrightarrow> newline \<notin> set (str_digits n)"
proof (induction n rule: str_digits.induct)
  case (1 n)
  show ?case
  proof (cases "n < 10")
    case True
    with 1(2) digit_char_newline [of n] show ?thesis
      by (subst str_digits.simps) auto
  next
    case False
    then have "newline \<notin> set (str_digits (n div 10))" using 1 by simp
    moreover have "digit_char (n mod 10) \<noteq> newline"
      by (rule digit_char_newline) simp_all
    ultimately show ?thesis using False by (subst str_digits.simps) auto
  qed
qed

lemma str_int_newline: "newline \<notin> set (str_int i)"
proof -
  have "newline \<noteq> CHR ''-''" by (simp add: newline_def)
  then show ?thesis by (simp add: str_int_def str_digits_newline)
qed

text \<open>
  Claim C10. Each bundled script returns and prints exactly one line. For problem 3 the
  loop \<^verbatim>\<open>while factor_found\<close> ends after four rounds, with the factors 6857 and 1471
  and no new factor, and the script prints \<^verbatim>\<open>6857\<close>. For problem 4 both loops are
  bounded, and what is printed is one number followed by a newline.
\<close>

theorem solutions_print_one_line:
  "problem_3_main = Some (Inr (''6857'' @ [newline]))
   \<and> (\<exists>line. problem_4_main = Inr (line @ [newline]) \<and> newline \<notin> set line)"
proof
  have "rev (sort [6857, 1471 :: int]) = [6857, 1471]" by simp
  then show "problem_3_main = Some (Inr (''6857'' @ [newline]))"
    by (simp add: problem_3_main_def factor_loop_result str_int_6857)
next
  have "problem_4_main = Inr (str_int (outer_loop 999 999 0) @ [newline])"
    by (simp add: problem_4_main_def)
  moreover have "newline \<notin> set (str_int (outer_loop 999 999 0))"
    by (rule str_int_newline)
  ultimately show "\<exists>line. problem_4_main = Inr (line @ [newline]) \<and> newline \<notin> set line"
    by blast
qed

section \<open>Properties of the orchestrator\<close>

lemma try_problem_None:
  "try_problem w None lang (command lang config p) p st = (st, Some (failure w lang config p))"
  by (simp add: try_problem_def failure_def update_database_def split: sum.splits)

lemma run_problems_None:
  "run_problems w None lang config ps st =
     st\<lparr>total_benchmarks := total_benchmarks st + length ps,
        printed := printed st @
          concat (map (\<lambda>p. [Running (number p) lang, Failed (failure w lang config p)]) ps)\<rparr>"
proof (induction ps arbitrary: st)
  case Nil
  then show ?case by simp
next
  case (Cons p ps)
  show ?case
    by (simp add: Let_def try_problem_None Cons.IH)
qed

lemma discover_problems_Inr: "\<exists>ps. discover_problems lang project_root = Inr ps"
  by (simp add: discover_problems_def collect_map_filter [OF glob_problem_prefix]
      split: option.splits)

lemma discover_problems_unknown:
  "map_of LANGUAGE_CONFIGS lang = None \<Longrightarrow> discover_problems lang project_root = Inr []"
  by (simp add: discover_problems_def)

lemma store_event_failures:
  "filter store_event
     (concat (map (\<lambda>p. [Running (number p) lang, Failed (failure w lang config p)]) ps)) = []"
  by (induction ps) simp_all

lemma run_languages_None:
  "\<exists>st'. run_languages w a None langs st = (st', None)
      \<and> rows st' = rows st \<and> new_count st' = new_count st
      \<and> improved_count st' = improved_count st
      \<and> filter store_event (printed st') = filter store_event (printed st)"
proof (induction langs arbitrary: st)
  case Nil
  then show ?case by simp
next
  case (Cons lang langs)
  obtain discovered where d: "discover_problems lang (files w) = Inr discovered"
    using discover_problems_Inr by blast
  define problems where "problems =
    (case arg_problem a of None \<Rightarrow> discovered | Some n \<Rightarrow> filter (\<lambda>p. number p = n) discovered)"
  show ?case
  proof (cases "problems = []")
    case True
    define st1 where "st1 = st\<lparr>printed := printed st @
        [No_problems lang
           (case arg_problem a of None \<Rightarrow> None | Some n \<Rightarrow> if n \<noteq> 0 then Some n else None)]\<rparr>"
    from Cons.IH [of st1] obtain st' where
      "run_languages w a None langs st1 = (st', None)" "rows st' = rows st1"
      "new_count st' = new_count st1" "improved_count st' = improved_count st1"
      "filter store_event (printed st') = filter store_event (printed st1)" by blast
    then show ?thesis
      using True by (simp add: d problems_def [symmetric] st1_def [symmetric]) (simp add: st1_def)
  next
    case False
    have "discovered \<noteq> []" using False by (auto simp: problems_def split: option.splits)
    with d discover_problems_unknown [of lang "files w"]
    obtain config where c: "map_of LANGUAGE_CONFIGS lang = Some config"
      by (cases "map_of LANGUAGE_CONFIGS lang") auto
    define st1 where "st1 = run_problems w None lang config problems st"
    have st1: "rows st1 = rows st" "new_count st1 = new_count st"
      "improved_count st1 = improved_count st"
      "filter store_event (printed st1) = filter store_event (printed st)"
      by (simp_all add: st1_def run_problems_None store_event_failures)
    from Cons.IH [of st1] obtain st' where
      "run_languages w a None langs st1 = (st', None)" "rows st' = rows st1"
      "new_count st' = new_count st1" "improved_count st' = improved_count st1"
      "filter store_event (printed st') = filter store_event (printed st1)" by blast
    then show ?thesis
      using False st1 by (simp add: d problems_def [symmetric] c st1_def [symmetric])
  qed
qed

lemma main_fields:
  "(exit_code (main a w) = 2 \<and> out_events (main a w) = [] \<and> db_after (main a w) = table w
    \<or> exit_code (main a w) = 1
      \<and> db_after (main a w) = Some (case table w of None \<Rightarrow> [] | Some s \<Rightarrow> s))
   \<and> filter store_event (out_events (main a w)) = []
   \<and> csv_written (main a w) = None \<and> md_written (main a w) = None
   \<and> conn_value (main a w) = None"
proof (cases "case arg_language a of None \<Rightarrow> False | Some l \<Rightarrow> l \<notin> set (map fst LANGUAGE_CONFIGS)")
  case True
  then show ?thesis by (simp add: main_def)
next
  case False
  define languages where "languages =
     (case arg_language a of
        None \<Rightarrow> map fst LANGUAGE_CONFIGS
      | Some l \<Rightarrow> if l \<noteq> [] then [l] else map fst LANGUAGE_CONFIGS)"
  define st0 where "st0 = \<lparr>rows = (case table w of None \<Rightarrow> [] | Some s \<Rightarrow> s),
     total_benchmarks = 0, improved_count = 0, new_count = 0, printed = []\<rparr>"
  from run_languages_None [of w a languages st0] obtain st where
    st: "run_languages w a None languages st0 = (st, None)" "rows st = rows st0"
      "filter store_event (printed st) = filter store_event (printed st0)" by blast
  have eq: "main a w = \<lparr>exit_code = 1, out_events = printed st, db_after = Some (rows st),
                csv_written = None, md_written = None, conn_value = None\<rparr>"
    using False
    by (simp add: main_def init_database_def languages_def [symmetric] st0_def [symmetric]
        st(1) get_all_results_def Let_def)
  have 1: "filter store_event (printed st) = []" using st(3) by (simp add: st0_def)
  have 2: "rows st = (case table w of None \<Rightarrow> [] | Some s \<Rightarrow> s)"
    using st(2) by (simp add: st0_def)
  show ?thesis unfolding eq by (simp add: 1 2)
qed

text \<open>
  Claim C3. \<^verbatim>\<open>init_database\<close> creates the table (keeping an existing one) and returns
  \<^verbatim>\<open>None\<close>; so in every run of \<^verbatim>\<open>main\<close> the variable \<^verbatim>\<open>conn\<close> is \<^verbatim>\<open>None\<close>, no
  problem gets a status from the store, and the table is left as \<^verbatim>\<open>init_database\<close>
  made it.
\<close>

theorem init_database_returns_None:
  "init_database db = (Some (case db of None \<Rightarrow> [] | Some s \<Rightarrow> s), None)
   \<and> conn_value (main a w) = None
   \<and> filter store_event (out_events (main a w)) = []
   \<and> (db_after (main a w) = table w
        \<or> db_after (main a w) = Some (case table w of None \<Rightarrow> [] | Some s \<Rightarrow> s))"
  using main_fields [of a w] by (auto simp: init_database_def)

text \<open>
  Claim C4 says that after the batch both reports are always written and the program exits
  with status 0. The code does not do that: \<^verbatim>\<open>conn\<close> is \<^verbatim>\<open>None\<close>, so
  \<^verbatim>\<open>get_all_results(conn)\<close> raises after the loops, outside of any \<^verbatim>\<open>try\<close>. Every run
  of \<^verbatim>\<open>main\<close> ends with a status other than 0 and writes neither report. (The failures
  of single problems are caught: the example run goes on to problem 4 after problem 3.)
\<close>

theorem main_never_exports:
  "exit_code (main a w) \<noteq> 0 \<and> csv_written (main a w) = None \<and> md_written (main a w) = None"
  using main_fields [of a w] by auto

lemma benchmark_steady:
  assumes "\<And>i. run i = Exit_zero out t" and "0 < runs"
  shows "\<exists>st. benchmark run k runs warmup = (Inr st, k + warmup + runs)"
proof -
  have w: "warm_up run k warmup = (None, k + warmup)"
    by (rule warm_up_ok) (simp add: assms(1))
  have "\<forall>i<runs. \<exists>o'. run (k + warmup + i) = Exit_zero o' ((\<lambda>i. t) i) \<and> strip o' = strip out"
    by (simp add: assms(1))
  from measured_first [OF assms(2) this]
  have m: "measured run (k + warmup) runs [] None
             = (Inr (map (\<lambda>i. t) [0..<runs], Some (strip out)), k + warmup + runs)" .
  show ?thesis using assms(2) by (simp add: benchmark_def w m)
qed

lemma benchmark_fails:
  assumes "run k = Exit_nonzero" and "0 < warmup"
  shows "benchmark run k runs warmup = (Inl CalledProcessError, Suc k)"
proof -
  from assms(2) obtain n where "warmup = Suc n" by (cases warmup) auto
  then show ?thesis by (simp add: benchmark_def run_command_def assms(1))
qed

lemma ex_main:
  "main ex_args ex_world =
     \<lparr>exit_code = 1,
      out_events = [Running 3 ''python'', Failed (AttributeError no_cursor),
                    Running 4 ''python'', Failed CalledProcessError],
      db_after = Some [], csv_written = None, md_written = None, conn_value = None\<rparr>"
proof -
  define config where "config =
    \<lparr>dir = ''python'', command_prefix = [''uv'', ''run'', ''python''],
     file_pattern = ''main.py''\<rparr>"
  define p3 where "p3 = \<lparr>number = 3, path = ''problem-3''\<rparr>"
  define p4 where "p4 = \<lparr>number = 4, path = ''problem-4''\<rparr>"
  have c3: "command ''python'' config p3 = [''uv'', ''run'', ''python'', ''problem-3/main.py'']"
    and c4: "command ''python'' config p4 = [''uv'', ''run'', ''python'', ''problem-4/main.py'']"
    by (simp_all add: command_def config_def p3_def p4_def)
  obtain st where "benchmark (launch ex_world (command ''python'' config p3)) 0 RUNS WARMUP
      = (Inr st, 0 + WARMUP + RUNS)"
    using benchmark_steady [of "launch ex_world (command ''python'' config p3)"
        "''6857'' @ [newline]" "1/10" RUNS 0 WARMUP]
    by (auto simp: c3 ex_world_def RUNS_def)
  then have f3: "failure ex_world ''python'' config p3 = AttributeError no_cursor"
    by (simp add: failure_def)
  have "benchmark (launch ex_world (command ''python'' config p4)) 0 RUNS WARMUP
      = (Inl CalledProcessError, Suc 0)"
    by (rule benchmark_fails) (simp_all add: c4 ex_world_def WARMUP_def)
  then have f4: "failure ex_world ''python'' config p4 = CalledProcessError"
    by (simp add: failure_def)
  have d: "discover_problems ''python'' (files ex_world) = Inr [p3, p4]"
    by (simp add: ex_world_def ex_root_discovered p3_def p4_def)
  have l: "map_of LANGUAGE_CONFIGS ''python'' = Some config"
    by (simp add: LANGUAGE_CONFIGS_def config_def)
  have k: "map fst LANGUAGE_CONFIGS = [''python'']"
    by (simp add: LANGUAGE_CONFIGS_def)
  have a: "arg_language ex_args = None" "arg_problem ex_args = None"
    by (simp_all add: ex_args_def)
  have t: "table ex_world = None" by (simp add: ex_world_def)
  have "main ex_args ex_world =
     \<lparr>exit_code = 1,
      out_events = [Running (number p3) ''python'', Failed (AttributeError no_cursor),
                    Running (number p4) ''python'', Failed CalledProcessError],
      db_after = Some [], csv_written = None, md_written = None, conn_value = None\<rparr>"
    by (simp add: main_def a k t init_database_def d l run_problems_None f3 f4
        get_all_results_def del: run_problems.simps)
  then show ?thesis by (simp add: p3_def p4_def)
qed

theorem init_database_returns_None_witness:
  "init_database None = (Some [], None)
   \<and> conn_value (main ex_args ex_world) = None
   \<and> out_events (main ex_args ex_world) =
       [Running 3 ''python'', Failed (AttributeError no_cursor),
        Running 4 ''python'', Failed CalledProcessError]
   \<and> db_after (main ex_args ex_world) = Some []"
  using init_database_returns_None [of None ex_args ex_world]
  by (simp add: ex_main)

theorem main_never_exports_witness:
  "exit_code (main ex_args ex_world) = 1
   \<and> csv_written (main ex_args ex_world) = None
   \<and> md_written (main ex_args ex_world) = None"
  using main_never_exports [of ex_args ex_world]
  by (simp add: ex_main)

end
